theory Spec2Isabelle
  imports Complex_Main
begin

section \<open>Data model of \<open>honeybee_3dm/grid.py\<close>\<close>

text \<open>
  Python exceptions are values.  Only the classes that occur in the module (or that its
  indexing and file operations can raise) are distinguished; the string is the message.
\<close>

datatype exn =
    ValueError string
  | AssertionError string
  | IndexError string
  | TypeError string
  | ZeroDivisionError string
  | UnicodeEncodeError string
  | OSError string

text \<open>
  A Rhino layer and a Rhino object, reduced to the attributes the module reads:
  \<open>layer.Name\<close>, \<open>obj.Geometry\<close>, \<open>obj.Attributes.Id\<close> and
  \<open>obj.Attributes.Name\<close> (the fields \<open>ObjId\<close> and \<open>ObjName\<close>).  Of the geometry only its class matters
  (\<open>isinstance(geo, rhino3dm.Mesh)\<close>).  A stored object name may be \<open>None\<close>
  or the empty string; both are falsy.
\<close>

datatype geometry = Mesh | Brep | Extrusion | Curve | OtherGeometry

record Layer =
  Name :: string

record ObjectAttributes =
  ObjId :: string
  ObjName :: "string option"

record rh_object =
  Geometry :: geometry
  Attributes :: ObjectAttributes

text \<open>
  A sensor is a position and a direction; a sensor grid is an identifier and its sensors.
  Coordinates are only passed along, never computed with.
\<close>

type_synonym vec3 = "real \<times> real \<times> real"

record Sensor =
  pos :: vec3
  dir :: vec3

record SensorGrid =
  "identifier" :: string
  sensors :: "Sensor list"

text \<open>
  The value of the keyword argument \<open>grid_controls\<close>: \<open>None\<close>, a tuple, a list, or
  a number passed by mistake.  Its truth value is Python's: \<open>None\<close>, the empty
  sequences and zero are falsy.
\<close>

datatype py_value = PyNone | PyTuple "real list" | PyList "real list" | PyFloat real

fun truthy :: "py_value \<Rightarrow> bool" where
  "truthy PyNone = False"
| "truthy (PyTuple xs) = (xs \<noteq> [])"
| "truthy (PyList xs) = (xs \<noteq> [])"
| "truthy (PyFloat x) = (x \<noteq> 0)"

text \<open>\<open>grid_controls[i]\<close> for a literal index \<open>i \<ge> 0\<close>; out of range it raises.\<close>

fun subscript :: "py_value \<Rightarrow> nat \<Rightarrow> exn + real" where
  "subscript PyNone i = Inl (TypeError '''NoneType' object is not subscriptable'')"
| "subscript (PyTuple xs) i =
     (if i < length xs then Inr (xs ! i) else Inl (IndexError ''tuple index out of range''))"
| "subscript (PyList xs) i =
     (if i < length xs then Inr (xs ! i) else Inl (IndexError ''list index out of range''))"
| "subscript (PyFloat x) i = Inl (TypeError '''float' object is not subscriptable'')"

text \<open>
  The services the module imports and calls.  \<open>'m\<close> is the parsed Rhino file, \<open>'f\<close>
  the list of faces of one object, \<open>'s\<close> the process-wide state behind the generated
  identifiers.  \<open>to_face3d\<close>, \<open>clean_string\<close> and \<open>SensorGrid.from_face3d\<close> return
  their value or the exception they raised; only the first is called under a \<open>try\<close>.
  \<open>valid_rad_string\<close> is the check that a sensor grid makes of its identifier: the
  exception it raises, or \<open>None\<close>.  \<open>clean_and_id_string\<close> draws a new identifier
  and so takes and returns the generator state.
\<close>

record ('m, 'f, 's) services =
  objects_on_layer :: "'m \<Rightarrow> Layer \<Rightarrow> rh_object list"
  objects_on_parent_child :: "'m \<Rightarrow> string \<Rightarrow> rh_object list"
  to_face3d :: "rh_object \<Rightarrow> real \<Rightarrow> exn + 'f"
  clean_and_id_string :: "string \<Rightarrow> 's \<Rightarrow> string \<times> 's"
  clean_string :: "string \<Rightarrow> exn + string"
  from_face3d :: "string \<Rightarrow> 'f \<Rightarrow> real \<Rightarrow> real \<Rightarrow> real \<Rightarrow> exn + SensorGrid"
  valid_rad_string :: "string \<Rightarrow> exn option"

text \<open>
  \<open>SensorGrid.from_position_and_direction\<close> of honeybee-radiance makes the grid of the
  positions paired with the directions, in order; the grid checks its identifier and raises
  when it is not valid.
\<close>

definition from_position_and_direction ::
  "('m, 'f, 's) services \<Rightarrow> string \<Rightarrow> vec3 list \<Rightarrow> vec3 list \<Rightarrow> exn + SensorGrid" where
  "from_position_and_direction env ident positions directions =
     (case valid_rad_string env ident of
        Some e \<Rightarrow> Inl e
      | None \<Rightarrow>
          Inr \<lparr>identifier = ident,
               sensors = map (\<lambda>(l, v). \<lparr>pos = l, dir = v\<rparr>) (zip positions directions)\<rparr>)"

section \<open>\<open>import_grids\<close>\<close>

text \<open>The message of the \<open>AssertionError\<close> raised for an object that cannot be converted.\<close>

definition conversion_message :: "string \<Rightarrow> string" where
  "conversion_message obj_id =
     ''Please check object with ID: '' @ obj_id @ ''.''
     @ '' Either the object has faces too small for the grid size, or the''
     @ '' object is not supported for grids. You should try again with a''
     @ '' smaller grid size in the config file.''"

text \<open>\<open>obj_name = name or clean_and_id_string('Grid')\<close>.\<close>

definition obj_name_of :: "('m, 'f, 's) services \<Rightarrow> rh_object \<Rightarrow> 's \<Rightarrow> string \<times> 's" where
  "obj_name_of env obj s =
     (case ObjName (Attributes obj) of
        None \<Rightarrow> clean_and_id_string env ''Grid'' s
      | Some name \<Rightarrow> if name \<noteq> [] then (name, s) else clean_and_id_string env ''Grid'' s)"

text \<open>
  The body of the loop up to the call of \<open>SensorGrid.from_face3d\<close>: the mesh test, the
  guarded conversion, the working name, the argument list (the sanitised name first, then
  the three subscripts) and the seeding.  Whatever is raised outside the \<open>try\<close> leaves
  the function as it is.  The body yields \<open>sens\<close>, \<open>obj_name\<close> and the generator state.
\<close>

definition seed_object ::
  "('m, 'f, 's) services \<Rightarrow> real \<Rightarrow> py_value \<Rightarrow> rh_object \<Rightarrow> 's \<Rightarrow> exn + (SensorGrid \<times> string \<times> 's)" where
  "seed_object env tolerance grid_controls obj s =
     (if Geometry obj = Mesh then Inl (ValueError ''Mesh is not accepted.'')
      else case to_face3d env obj tolerance of
        Inl (AssertionError m) \<Rightarrow> Inl (AssertionError (conversion_message (ObjId (Attributes obj))))
      | Inl e \<Rightarrow> Inl e
      | Inr faces \<Rightarrow>
          (case obj_name_of env obj s of (obj_name, s') \<Rightarrow>
             (case clean_string env obj_name of Inl e \<Rightarrow> Inl e | Inr ident \<Rightarrow>
             (case subscript grid_controls 0 of Inl e \<Rightarrow> Inl e | Inr g0 \<Rightarrow>
             (case subscript grid_controls 0 of Inl e \<Rightarrow> Inl e | Inr g0' \<Rightarrow>
             (case subscript grid_controls 1 of Inl e \<Rightarrow> Inl e | Inr g1 \<Rightarrow>
             (case from_face3d env ident faces g0 g0' g1 of
                Inl e \<Rightarrow> Inl e
              | Inr sens \<Rightarrow> Inr (sens, obj_name, s'))))))))"

text \<open>
  The rest of the body: the positions and directions of \<open>sens\<close> are appended to the
  accumulators and the row \<open>[obj_name, len(sens)]\<close> to \<open>data\<close>.
\<close>

type_synonym accumulators = "vec3 list \<times> vec3 list \<times> (string \<times> nat) list"

definition import_grids_body ::
  "('m, 'f, 's) services \<Rightarrow> real \<Rightarrow> py_value \<Rightarrow> accumulators \<times> 's \<Rightarrow> rh_object \<Rightarrow> exn + (accumulators \<times> 's)" where
  "import_grids_body env tolerance grid_controls st obj =
     (case st of ((grid_pos, grid_dir, data), s) \<Rightarrow>
        (case seed_object env tolerance grid_controls obj s of
           Inl e \<Rightarrow> Inl e
         | Inr (sens, obj_name, s') \<Rightarrow>
             Inr ((grid_pos @ map pos (sensors sens),
                   grid_dir @ map dir (sensors sens),
                   data @ [(obj_name, length (sensors sens))]), s')))"

text \<open>\<open>for obj in grid_objs\<close>: the first exception ends the loop.\<close>

fun import_grids_loop ::
  "('m, 'f, 's) services \<Rightarrow> real \<Rightarrow> py_value \<Rightarrow> rh_object list \<Rightarrow> accumulators \<times> 's \<Rightarrow> exn + (accumulators \<times> 's)" where
  "import_grids_loop env tolerance grid_controls [] st = Inr st"
| "import_grids_loop env tolerance grid_controls (obj # objs) st =
     (case import_grids_body env tolerance grid_controls st obj of
        Inl e \<Rightarrow> Inl e
      | Inr st' \<Rightarrow> import_grids_loop env tolerance grid_controls objs st')"

definition grid_objs_of ::
  "('m, 'f, 's) services \<Rightarrow> 'm \<Rightarrow> Layer \<Rightarrow> bool \<Rightarrow> rh_object list" where
  "grid_objs_of env rhino3dm_file layer child_layer =
     (if \<not> child_layer then objects_on_layer env rhino3dm_file layer
      else objects_on_parent_child env rhino3dm_file (Name layer))"

definition default_controls :: "py_value \<Rightarrow> py_value" where
  "default_controls grid_controls =
     (if \<not> truthy grid_controls then PyTuple [1, 1, 0] else grid_controls)"

text \<open>
  The function returns \<open>(hb_grids, data)\<close> or raises; the generator state after the call
  is returned as well.
\<close>

definition import_grids ::
  "('m, 'f, 's) services \<Rightarrow> 'm \<Rightarrow> Layer \<Rightarrow> real \<Rightarrow> py_value \<Rightarrow> bool \<Rightarrow> 's
     \<Rightarrow> exn + ((SensorGrid list \<times> (string \<times> nat) list) \<times> 's)" where
  "import_grids env rhino3dm_file layer tolerance grid_controls child_layer s =
     (let hb_grids = [];
          grid_objs = grid_objs_of env rhino3dm_file layer child_layer;
          grid_controls = default_controls grid_controls
      in case import_grids_loop env tolerance grid_controls grid_objs (([], [], []), s) of
           Inl e \<Rightarrow> Inl e
         | Inr ((grid_pos, grid_dir, data), s') \<Rightarrow>
             (case from_position_and_direction env (Name layer) grid_pos grid_dir of
                Inl e \<Rightarrow> Inl e
              | Inr grid \<Rightarrow> Inr ((hb_grids @ [grid], data), s')))"

text \<open>
  The per-object results of a call, in the order of the enumeration: the working name and
  the seeded grid of every object, or the first exception.  The loop is compared with it.
\<close>

fun seed_objects ::
  "('m, 'f, 's) services \<Rightarrow> real \<Rightarrow> py_value \<Rightarrow> rh_object list \<Rightarrow> 's
     \<Rightarrow> exn + ((string \<times> SensorGrid) list \<times> 's)" where
  "seed_objects env tolerance grid_controls [] s = Inr ([], s)"
| "seed_objects env tolerance grid_controls (obj # objs) s =
     (case seed_object env tolerance grid_controls obj s of
        Inl e \<Rightarrow> Inl e
      | Inr (sens, obj_name, s1) \<Rightarrow>
          (case seed_objects env tolerance grid_controls objs s1 of
             Inl e \<Rightarrow> Inl e
           | Inr (rest, s2) \<Rightarrow> Inr ((obj_name, sens) # rest, s2)))"

text \<open>
  An object that the loop processes without an exception: it is not a mesh, it is converted
  to faces, the grid controls have their first two components and, whatever the state of the
  generator, its working name is sanitised and the seeding returns a grid.
\<close>

definition seeds :: "('m, 'f, 's) services \<Rightarrow> real \<Rightarrow> py_value \<Rightarrow> rh_object \<Rightarrow> bool" where
  "seeds env tolerance grid_controls obj \<longleftrightarrow>
     Geometry obj \<noteq> Mesh \<and>
     (\<exists>faces x y.
        to_face3d env obj tolerance = Inr faces \<and>
        subscript grid_controls 0 = Inr x \<and> subscript grid_controls 1 = Inr y \<and>
        (\<forall>s. \<exists>ident sens.
           clean_string env (fst (obj_name_of env obj s)) = Inr ident \<and>
           from_face3d env ident faces x x y = Inr sens))"

section \<open>\<open>DataWriter.write_csv\<close>\<close>

text \<open>
  A row is a list of cells; the rows that \<open>import_grids\<close> produces hold a string and
  an integer.  \<open>str\<close> of a (non-negative, then any) integer is its decimal numeral.
\<close>

datatype cell = PyStr string | PyInt int

fun str_nat :: "nat \<Rightarrow> string" where
  "str_nat n =
     (if n < 10 then [''0123456789'' ! n]
      else str_nat (n div 10) @ [''0123456789'' ! (n mod 10)])"

declare str_nat.simps [simp del]

definition str_int :: "int \<Rightarrow> string" where
  "str_int i = (if i < 0 then CHR ''-'' # str_nat (nat (- i)) else str_nat (nat i))"

fun field_text :: "cell \<Rightarrow> string" where
  "field_text (PyStr s) = s"
| "field_text (PyInt i) = str_int i"

text \<open>
  \<open>csv.writer(csv_file, delimiter=',')\<close> writes with the remaining defaults of the
  \<open>excel\<close> dialect: a field is quoted when it holds the delimiter, the quote character or
  a character of the line terminator, a quote character inside it is doubled, a row of one
  empty field is written as two quote characters, and every row ends with CR LF.  The file
  is opened with \<open>newline=''\<close>, so what the writer emits is what the file holds.
\<close>

definition LF :: char where
  "LF = CHR 0x0A"

definition CR :: char where
  "CR = CHR 0x0D"

definition quotechar :: char where
  "quotechar = CHR 0x22"

definition special :: "char \<Rightarrow> bool" where
  "special c \<longleftrightarrow> c = CHR '','' \<or> c = quotechar \<or> c = CR \<or> c = LF"

definition quoted :: "string \<Rightarrow> string" where
  "quoted s =
     quotechar # concat (map (\<lambda>c. if c = quotechar then [c, c] else [c]) s) @ [quotechar]"

definition csv_field :: "string \<Rightarrow> string" where
  "csv_field s = (if list_ex special s then quoted s else s)"

fun join_fields :: "string list \<Rightarrow> string" where
  "join_fields [] = []"
| "join_fields [f] = f"
| "join_fields (f # g # fs) = f @ CHR '','' # join_fields (g # fs)"

definition csv_record :: "cell list \<Rightarrow> string" where
  "csv_record row =
     (let r = join_fields (map (\<lambda>c. csv_field (field_text c)) row)
      in if row \<noteq> [] \<and> r = [] then [quotechar, quotechar] else r)"

definition writerow :: "cell list \<Rightarrow> string" where
  "writerow row = csv_record row @ [CR, LF]"

text \<open>
  The file system, as far as the method depends on it: which paths exist
  (\<open>os.path.exists\<close>), which paths \<open>open(path, mode='w')\<close> can open, and the text of
  every file.  \<open>os.path.join\<close> depends on the platform and is a parameter.
\<close>

record filesystem =
  path_exists :: "string \<Rightarrow> bool"
  can_open :: "string \<Rightarrow> bool"
  files :: "string \<Rightarrow> string option"

record DataWriter =
  name :: string
  data :: "cell list list"
  target_folder :: "string option"

text \<open>The choice of \<open>file_name\<close>; an empty \<open>target_folder\<close> is falsy, like \<open>None\<close>.\<close>

definition file_name_of ::
  "(string \<Rightarrow> string \<Rightarrow> string) \<Rightarrow> DataWriter \<Rightarrow> filesystem \<Rightarrow> exn + string" where
  "file_name_of os_path_join self fs =
     (case target_folder self of
        None \<Rightarrow> Inr (name self @ ''.csv'')
      | Some folder \<Rightarrow>
          if folder \<noteq> [] then
            (if \<not> path_exists fs folder
             then Inl (ValueError ''Target foldder is not a valid path.'')
             else Inr (os_path_join folder (name self @ ''.csv'')))
          else Inr (name self @ ''.csv''))"

text \<open>
  \<open>for data in self.data: csv_writer.writerow(data)\<close>, on the text written so far.  The
  file is a text file in the default encoding of the platform; \<open>encodable\<close> tells the
  characters that this encoding has.  A record with another character is not written: the
  write raises, and the loop ends with the records written before it.
\<close>

fun write_rows :: "(char \<Rightarrow> bool) \<Rightarrow> string \<Rightarrow> cell list list \<Rightarrow> exn option \<times> string" where
  "write_rows encodable written [] = (None, written)"
| "write_rows encodable written (row # rows) =
     (if list_all encodable (writerow row)
      then write_rows encodable (written @ writerow row) rows
      else (Some (UnicodeEncodeError ''codec can't encode character''), written))"

text \<open>
  The method returns nothing; the result is the exception raised, if any, and the file
  system it leaves.  Opening for writing creates the file or empties it; the \<open>with\<close>
  statement closes it also when a write raises, and the file then holds what was written.
\<close>

definition write_csv ::
  "(string \<Rightarrow> string \<Rightarrow> string) \<Rightarrow> (char \<Rightarrow> bool) \<Rightarrow> DataWriter \<Rightarrow> filesystem
     \<Rightarrow> exn option \<times> filesystem" where
  "write_csv os_path_join encodable self fs =
     (case file_name_of os_path_join self fs of
        Inl e \<Rightarrow> (Some e, fs)
      | Inr file_name \<Rightarrow>
          if \<not> can_open fs file_name then (Some (OSError file_name), fs)
          else (case write_rows encodable [] (data self) of
                  (raised, written) \<Rightarrow>
                    (raised,
                     fs\<lparr>path_exists := (path_exists fs)(file_name := True),
                        files := (files fs)(file_name \<mapsto> written)\<rparr>)))"




section \<open>A concrete environment\<close>

text \<open>
  Services to run the model on: a file is a list of objects with the full name of their
  layer; the faces of an object are their centre points, two for a Brep, one for an
  extrusion; a curve is refused with a \<open>TypeError\<close> and anything else fails an
  assertion; identifiers are numbered; a string is valid when it is not empty and holds
  letters, digits, dots, underscores and hyphens only; sanitising replaces spaces by
  underscores, drops the other characters that are not valid and raises when nothing is
  left; the seeding divides by its spacings, checks the identifier and puts one sensor on
  each face, moved from the centre by its three numeric arguments.
\<close>

definition legal :: "char \<Rightarrow> bool" where
  "legal c \<longleftrightarrow> c \<in> set ''.ABCDEFGHIJKLMNOPQRSTUVWXYZabcdefghijklmnopqrstuvwxyz0123456789_-''"

definition demo_valid_rad_string :: "string \<Rightarrow> exn option" where
  "demo_valid_rad_string v =
     (if \<not> list_all legal v then Some (AssertionError ''Illegal character found in identifier'')
      else if v = [] then Some (AssertionError ''Input contains no characters.'')
      else None)"

definition demo_clean_string :: "string \<Rightarrow> exn + string" where
  "demo_clean_string v =
     (let val = filter legal (map (\<lambda>c. if c = CHR '' '' then CHR ''_'' else c) v)
      in if val = [] then Inl (AssertionError ''Input contains no valid characters.'')
         else Inr val)"

definition demo_services :: "((string \<times> rh_object) list, vec3 list, nat) services" where
  "demo_services =
     \<lparr>objects_on_layer = (\<lambda>file layer. map snd (filter (\<lambda>(l, obj). l = Name layer) file)),
      objects_on_parent_child =
        (\<lambda>file nm. map snd (filter (\<lambda>(l, obj). l = nm \<or> take (length nm + 2) l = nm @ ''::'') file)),
      to_face3d =
        (\<lambda>obj tol. case Geometry obj of
             Brep \<Rightarrow> Inr [(0, 0, 0), (10, 0, 0)]
           | Extrusion \<Rightarrow> Inr [(0, 10, 0)]
           | Curve \<Rightarrow> Inl (TypeError ''Curve is not supported.'')
           | _ \<Rightarrow> Inl (AssertionError ''Face3D should have at least 3 vertices.'')),
      clean_and_id_string = (\<lambda>v n. (v @ ''_'' @ str_nat n, Suc n)),
      clean_string = demo_clean_string,
      from_face3d =
        (\<lambda>ident faces x_dim y_dim offset.
           if x_dim = 0 \<or> y_dim = 0 then Inl (ZeroDivisionError ''float division by zero'')
           else case demo_valid_rad_string ident of
             Some e \<Rightarrow> Inl e
           | None \<Rightarrow>
               Inr \<lparr>identifier = ident,
                    sensors =
                      map (\<lambda>(fx, fy, fz).
                             \<lparr>pos = (fx + x_dim, fy + y_dim, fz + offset), dir = (0, 0, 1)\<rparr>)
                        faces\<rparr>),
      valid_rad_string = demo_valid_rad_string\<rparr>"

definition demo_object :: "geometry \<Rightarrow> string \<Rightarrow> string option \<Rightarrow> rh_object" where
  "demo_object g i n = \<lparr>Geometry = g, Attributes = \<lparr>ObjId = i, ObjName = n\<rparr>\<rparr>"

definition demo_file :: "(string \<times> rh_object) list" where
  "demo_file =
     [(''grid'', demo_object Brep ''a1'' (Some ''north wall'')),
      (''other'', demo_object Mesh ''a2'' None),
      (''grid'', demo_object Extrusion ''a3'' None),
      (''grid::low'', demo_object Mesh ''a4'' (Some ''m'')),
      (''bad'', demo_object Brep ''a5'' None),
      (''bad'', demo_object OtherGeometry ''a6'' None),
      (''bad'', demo_object Mesh ''a7'' None),
      (''my grid'', demo_object Brep ''a8'' (Some ''desk'')),
      (''odd'', demo_object Curve ''a9'' None)]"

text \<open>
  \<open>os.path.join\<close> of two components on a POSIX system, the characters of the ASCII
  encoding, and a small file system.
\<close>

definition ascii :: "char \<Rightarrow> bool" where
  "ascii c \<longleftrightarrow> (of_char c :: nat) < 128"

definition posix_join :: "string \<Rightarrow> string \<Rightarrow> string" where
  "posix_join a b =
     (if b \<noteq> [] \<and> hd b = CHR ''/'' then b
      else if a = [] \<or> last a = CHR ''/'' then a @ b
      else a @ CHR ''/'' # b)"

definition demo_fs :: filesystem where
  "demo_fs =
     \<lparr>path_exists = (\<lambda>p. p = ''out'' \<or> p = ''out/report.csv''),
      can_open = (\<lambda>p. CHR ''/'' \<notin> set p \<or> take 4 p = ''out/''),
      files = [''out/report.csv'' \<mapsto> ''stale'']\<rparr>"

text \<open>A writer of the file \<open>report.csv\<close>.\<close>

definition demo_writer :: "cell list list \<Rightarrow> string option \<Rightarrow> DataWriter" where
  "demo_writer rows folder = \<lparr>name = ''report'', data = rows, target_folder = folder\<rparr>"

section \<open>Properties of \<open>import_grids\<close>\<close>

lemma seed_object_mesh:
  "Geometry obj = Mesh \<Longrightarrow>
   seed_object env tolerance gc obj s = Inl (ValueError ''Mesh is not accepted.'')"
  by (simp add: seed_object_def)

lemma seed_object_Inr:
  assumes "seed_object env tolerance gc obj s = Inr (sens, nm, s')"
  shows "Geometry obj \<noteq> Mesh \<and>
         (\<exists>faces ident x y. to_face3d env obj tolerance = Inr faces \<and>
            obj_name_of env obj s = (nm, s') \<and>
            clean_string env nm = Inr ident \<and>
            subscript gc 0 = Inr x \<and> subscript gc 1 = Inr y \<and>
            from_face3d env ident faces x x y = Inr sens)"
  using assms
  by (auto simp: seed_object_def split: if_splits sum.splits exn.splits prod.splits)

lemma seed_object_seeds:
  assumes "seeds env tolerance gc obj"
  shows "\<exists>sens. seed_object env tolerance gc obj s = Inr (sens, obj_name_of env obj s)"
proof -
  from assms obtain faces x y where
    ne: "Geometry obj \<noteq> Mesh" and f: "to_face3d env obj tolerance = Inr faces" and
    x: "subscript gc 0 = Inr x" and y: "subscript gc 1 = Inr y" and
    all: "\<forall>s. \<exists>ident sens. clean_string env (fst (obj_name_of env obj s)) = Inr ident \<and>
            from_face3d env ident faces x x y = Inr sens"
    unfolding seeds_def by blast
  from all obtain ident sens where
    c: "clean_string env (fst (obj_name_of env obj s)) = Inr ident" and
    g: "from_face3d env ident faces x x y = Inr sens"
    by blast
  obtain nm s1 where n: "obj_name_of env obj s = (nm, s1)" by (cases "obj_name_of env obj s")
  with c have c': "clean_string env nm = Inr ident" by simp
  have "seed_object env tolerance gc obj s = Inr (sens, nm, s1)"
    using ne f n c' x y g by (simp add: seed_object_def)
  with n show ?thesis by simp
qed

text \<open>The loop computes what \<open>seed_objects\<close> lists, appended to the accumulators.\<close>

lemma import_grids_loop_seed_objects:
  "import_grids_loop env tolerance gc objs ((gp, gd, rows), s) =
     (case seed_objects env tolerance gc objs s of
        Inl e \<Rightarrow> Inl e
      | Inr (rs, s') \<Rightarrow>
          Inr ((gp @ concat (map (\<lambda>(nm, sens). map pos (sensors sens)) rs),
                gd @ concat (map (\<lambda>(nm, sens). map dir (sensors sens)) rs),
                rows @ map (\<lambda>(nm, sens). (nm, length (sensors sens))) rs), s'))"
proof (induction objs arbitrary: gp gd rows s)
  case Nil
  show ?case by simp
next
  case (Cons obj objs)
  show ?case
  proof (cases "seed_object env tolerance gc obj s")
    case (Inl e)
    then show ?thesis by (simp add: import_grids_body_def)
  next
    case (Inr r)
    obtain sens nm s1 where r: "r = (sens, nm, s1)" by (cases r) auto
    show ?thesis
      using Inr r Cons.IH
      by (simp add: import_grids_body_def split: sum.splits prod.splits)
  qed
qed

lemma import_grids_loop_append:
  "import_grids_loop env tolerance gc (xs @ ys) st =
     (case import_grids_loop env tolerance gc xs st of
        Inl e \<Rightarrow> Inl e
      | Inr st' \<Rightarrow> import_grids_loop env tolerance gc ys st')"
  by (induction xs arbitrary: st) (auto split: sum.splits)

lemma import_grids_body_mesh:
  "Geometry obj = Mesh \<Longrightarrow>
   import_grids_body env tolerance gc st obj = Inl (ValueError ''Mesh is not accepted.'')"
  by (simp add: import_grids_body_def seed_object_mesh split: prod.splits)

lemma import_grids_body_not_converted:
  "Geometry obj \<noteq> Mesh \<Longrightarrow> to_face3d env obj tolerance = Inl e \<Longrightarrow>
   import_grids_body env tolerance gc st obj
     = Inl (case e of
              AssertionError m \<Rightarrow> AssertionError (conversion_message (ObjId (Attributes obj)))
            | _ \<Rightarrow> e)"
  by (simp add: import_grids_body_def seed_object_def split: prod.splits exn.splits)

lemma import_grids_raises:
  "import_grids_loop env tolerance (default_controls gc)
      (grid_objs_of env rhino3dm_file layer child_layer) (([], [], []), s) = Inl e \<Longrightarrow>
   import_grids env rhino3dm_file layer tolerance gc child_layer s = Inl e"
  by (simp add: import_grids_def)

lemma seed_objects_seeds:
  assumes "\<forall>obj \<in> set objs. seeds env tolerance gc obj"
  shows "\<exists>rs s'. seed_objects env tolerance gc objs s = Inr (rs, s')"
  using assms
proof (induction objs arbitrary: s)
  case Nil
  show ?case by simp
next
  case (Cons obj objs)
  from Cons.prems have "seeds env tolerance gc obj" by simp
  from seed_object_seeds [OF this, of s] obtain sens where
    one: "seed_object env tolerance gc obj s = Inr (sens, obj_name_of env obj s)" by blast
  obtain nm s1 where n: "obj_name_of env obj s = (nm, s1)" by (cases "obj_name_of env obj s")
  from Cons.IH [of s1] Cons.prems
  obtain rs s2 where r: "seed_objects env tolerance gc objs s1 = Inr (rs, s2)" by auto
  show ?case
    using one n r by simp
qed

lemma seed_objects_all2:
  "seed_objects env tolerance gc objs s = Inr (rs, s') \<Longrightarrow>
   list_all2 (\<lambda>obj (nm, sens). \<exists>s0 s1. seed_object env tolerance gc obj s0 = Inr (sens, nm, s1))
     objs rs"
proof (induction objs arbitrary: s rs)
  case Nil
  then show ?case by simp
next
  case (Cons obj objs)
  from Cons.prems obtain sens nm s1 rest where
    one: "seed_object env tolerance gc obj s = Inr (sens, nm, s1)" and
    others: "seed_objects env tolerance gc objs s1 = Inr (rest, s')" and
    rs: "rs = (nm, sens) # rest"
    by (auto split: sum.splits prod.splits)
  from Cons.IH [OF others] one rs show ?case by auto
qed

text \<open>Every per-object result comes from the services, at the arguments of the source.\<close>

lemma seed_objects_services:
  assumes "seed_objects env tolerance gc objs s = Inr (rs, s')"
  shows "list_all2
           (\<lambda>obj (nm, sens). \<exists>faces ident spacing_x spacing_y.
              to_face3d env obj tolerance = Inr faces \<and>
              clean_string env nm = Inr ident \<and>
              subscript gc 0 = Inr spacing_x \<and>
              subscript gc 1 = Inr spacing_y \<and>
              from_face3d env ident faces spacing_x spacing_x spacing_y = Inr sens)
           objs rs"
  using seed_objects_all2 [OF assms]
proof (rule list_all2_mono)
  fix obj and r :: "string \<times> SensorGrid"
  assume a: "case r of (nm, sens) \<Rightarrow>
        \<exists>s0 s1. seed_object env tolerance gc obj s0 = Inr (sens, nm, s1)"
  obtain nm sens where r: "r = (nm, sens)" by (cases r)
  from a r obtain s0 s1 where
    "seed_object env tolerance gc obj s0 = Inr (sens, nm, s1)" by auto
  from seed_object_Inr [OF this] r
  show "case r of (nm, sens) \<Rightarrow> \<exists>faces ident spacing_x spacing_y.
           to_face3d env obj tolerance = Inr faces \<and>
           clean_string env nm = Inr ident \<and>
           subscript gc 0 = Inr spacing_x \<and>
           subscript gc 1 = Inr spacing_y \<and>
           from_face3d env ident faces spacing_x spacing_x spacing_y = Inr sens"
    by auto
qed

lemma concat_map_sensors:
  "concat (map (\<lambda>(nm, sens). map f (sensors sens)) rs)
     = map f (concat (map (\<lambda>(nm, sens). sensors sens) rs))"
  by (induction rs) auto

lemma zip_pos_dir:
  "map (\<lambda>(l, v). \<lparr>pos = l, dir = v\<rparr>) (zip (map pos xs) (map dir xs)) = xs"
  by (induction xs) simp_all

lemma sum_list_counts:
  "sum_list (map snd (map (\<lambda>(nm, sens). (nm, length (sensors sens))) rs))
     = length (concat (map (\<lambda>(nm, sens). sensors sens) rs))"
  by (induction rs) auto

text \<open>The whole call, in terms of the per-object results and of the identifier check.\<close>

lemma import_grids_seed_objects:
  "import_grids env rhino3dm_file layer tolerance gc child_layer s =
     (case seed_objects env tolerance (default_controls gc)
             (grid_objs_of env rhino3dm_file layer child_layer) s of
        Inl e \<Rightarrow> Inl e
      | Inr (rs, s') \<Rightarrow>
          (case valid_rad_string env (Name layer) of
             Some e \<Rightarrow> Inl e
           | None \<Rightarrow>
               Inr (([\<lparr>identifier = Name layer,
                       sensors = concat (map (\<lambda>(nm, sens). sensors sens) rs)\<rparr>],
                     map (\<lambda>(nm, sens). (nm, length (sensors sens))) rs), s')))"
  by (simp add: import_grids_def import_grids_loop_seed_objects from_position_and_direction_def
        concat_map_sensors zip_pos_dir split: sum.splits prod.splits option.splits)

lemma import_grids_returns:
  assumes "import_grids env rhino3dm_file layer tolerance gc child_layer s = Inr ((grids, rows), s')"
  shows "\<exists>rs. seed_objects env tolerance (default_controls gc)
                 (grid_objs_of env rhino3dm_file layer child_layer) s = Inr (rs, s') \<and>
              grids = [\<lparr>identifier = Name layer,
                        sensors = concat (map (\<lambda>(nm, sens). sensors sens) rs)\<rparr>] \<and>
              rows = map (\<lambda>(nm, sens). (nm, length (sensors sens))) rs"
  using assms unfolding import_grids_seed_objects
  by (auto split: sum.splits prod.splits option.splits)

text \<open>The concrete environment, evaluated.\<close>

lemma demo_grid_objs:
  "grid_objs_of demo_services demo_file \<lparr>Name = ''grid''\<rparr> False
     = [demo_object Brep ''a1'' (Some ''north wall''), demo_object Extrusion ''a3'' None]"
  by code_simp

lemma demo_grid_objs_children:
  "grid_objs_of demo_services demo_file \<lparr>Name = ''grid''\<rparr> True
     = [demo_object Brep ''a1'' (Some ''north wall''), demo_object Extrusion ''a3'' None,
        demo_object Mesh ''a4'' (Some ''m'')]"
  by code_simp

lemma demo_bad_objs:
  "grid_objs_of demo_services demo_file \<lparr>Name = ''bad''\<rparr> False
     = [demo_object Brep ''a5'' None, demo_object OtherGeometry ''a6'' None,
        demo_object Mesh ''a7'' None]"
  by code_simp

lemma demo_valid_grid: "valid_rad_string demo_services (Name \<lparr>Name = ''grid''\<rparr>) = None"
  by code_simp

lemma demo_clean_string_valid:
  "demo_clean_string v = Inr val \<Longrightarrow> demo_valid_rad_string val = None"
  by (auto simp: demo_clean_string_def demo_valid_rad_string_def Let_def list_all_iff
      split: if_splits)

lemma demo_clean_string_Grid: "\<exists>val. demo_clean_string (''Grid_'' @ t) = Inr val"
  by (simp add: demo_clean_string_def Let_def legal_def)

lemma demo_seeds_named:
  "seeds demo_services 0.01 (default_controls PyNone) (demo_object Brep ''a1'' (Some ''north wall''))"
proof -
  have c: "demo_clean_string ''north wall'' = Inr ''north_wall''" by code_simp
  have v: "demo_valid_rad_string ''north_wall'' = None" by code_simp
  show ?thesis
    unfolding seeds_def
    by (simp add: demo_services_def demo_object_def obj_name_of_def default_controls_def c v)
qed

lemma demo_seeds_unnamed:
  "seeds demo_services 0.01 (default_controls PyNone) (demo_object Extrusion ''a3'' None)"
proof -
  have "\<exists>ident. demo_clean_string (''Grid_'' @ str_nat s) = Inr ident \<and>
          demo_valid_rad_string ident = None" for s
    using demo_clean_string_Grid [of "str_nat s"] demo_clean_string_valid by blast
  then show ?thesis
    unfolding seeds_def
    by (simp add: demo_services_def demo_object_def obj_name_of_def default_controls_def)
       (metis option.simps(4))
qed

lemma demo_run:
  "import_grids demo_services demo_file \<lparr>Name = ''grid''\<rparr> 0.01 PyNone False 0
   = Inr (([\<lparr>identifier = ''grid'',
             sensors = [\<lparr>pos = (1, 1, 1), dir = (0, 0, 1)\<rparr>,
                        \<lparr>pos = (11, 1, 1), dir = (0, 0, 1)\<rparr>,
                        \<lparr>pos = (1, 11, 1), dir = (0, 0, 1)\<rparr>]\<rparr>],
           [(''north wall'', 2), (''Grid_0'', 1)]), 1)"
  by code_simp

lemma demo_run_controls:
  "import_grids demo_services demo_file \<lparr>Name = ''grid''\<rparr> 0.01 (PyTuple [2, 3, 5]) False 0
   = Inr (([\<lparr>identifier = ''grid'',
             sensors = [\<lparr>pos = (2, 2, 3), dir = (0, 0, 1)\<rparr>,
                        \<lparr>pos = (12, 2, 3), dir = (0, 0, 1)\<rparr>,
                        \<lparr>pos = (2, 12, 3), dir = (0, 0, 1)\<rparr>]\<rparr>],
           [(''north wall'', 2), (''Grid_0'', 1)]), 1)"
  by code_simp

lemma demo_loop_grid:
  "import_grids_loop demo_services 0.01 (default_controls (PyTuple [2, 3, 5]))
     [demo_object Brep ''a1'' (Some ''north wall''), demo_object Extrusion ''a3'' None]
     (([], [], []), 0)
   = Inr (([(2, 2, 3), (12, 2, 3), (2, 12, 3)], [(0, 0, 1), (0, 0, 1), (0, 0, 1)],
           [(''north wall'', 2), (''Grid_0'', 1)]), 1)"
  by code_simp

lemma demo_loop_bad:
  "import_grids_loop demo_services 0.01 (default_controls PyNone)
     [demo_object Brep ''a5'' None] (([], [], []), 7)
   = Inr (([(1, 1, 1), (11, 1, 1)], [(0, 0, 1), (0, 0, 1)], [(''Grid_7'', 2)]), 8)"
  by code_simp

lemma demo_body:
  "import_grids_body demo_services 0.01 (PyTuple [1, 1, 0]) (([], [], []), 0)
     (demo_object Brep ''a1'' (Some ''north wall''))
   = Inr (([(1, 1, 1), (11, 1, 1)], [(0, 0, 1), (0, 0, 1)], [(''north wall'', 2)]), 0)"
  by code_simp

text \<open>
  C9, as amended.  When the enumeration of the layer yields no object, \<open>import_grids\<close>
  returns one grid, named after the layer, with no sensor, and an empty summary, provided
  that the name of the layer is valid as the identifier of a sensor grid; when it is not,
  the call raises what the check of the identifier raises.
\<close>

theorem import_grids_no_objects:
  assumes "grid_objs_of env rhino3dm_file layer child_layer = []"
  shows "import_grids env rhino3dm_file layer tolerance grid_controls child_layer s
         = (case valid_rad_string env (Name layer) of
              None \<Rightarrow> Inr (([\<lparr>identifier = Name layer, sensors = []\<rparr>], []), s)
            | Some e \<Rightarrow> Inl e)"
  using assms by (simp add: import_grids_seed_objects split: option.splits)

theorem import_grids_no_objects_witness:
  "grid_objs_of demo_services [(''other'', demo_object Brep ''a1'' None)] \<lparr>Name = ''grid''\<rparr> False = []
   \<and> valid_rad_string demo_services (Name \<lparr>Name = ''grid''\<rparr>) = None
   \<and> import_grids demo_services [(''other'', demo_object Brep ''a1'' None)] \<lparr>Name = ''grid''\<rparr>
       0.01 PyNone False 0
     = Inr (([\<lparr>identifier = ''grid'', sensors = []\<rparr>], []), 0)"
proof -
  have h: "grid_objs_of demo_services [(''other'', demo_object Brep ''a1'' None)]
             \<lparr>Name = ''grid''\<rparr> False = []"
    by (simp add: grid_objs_of_def demo_services_def)
  show ?thesis
    using h demo_valid_grid import_grids_no_objects [OF h, of "0.01" PyNone 0] by simp
qed

text \<open>
  No object is on the layer \<open>spare layer\<close>; its name holds a space, the grid refuses
  it, and the call raises.
\<close>

theorem import_grids_no_objects_counterexample:
  "grid_objs_of demo_services demo_file \<lparr>Name = ''spare layer''\<rparr> False = [] \<and>
   import_grids demo_services demo_file \<lparr>Name = ''spare layer''\<rparr> 0.01 PyNone False 0
     = Inl (AssertionError ''Illegal character found in identifier'')"
  by code_simp

text \<open>
  C1, as amended.  When every object enumerated on the layer is processed without an
  exception (it is not a mesh, it is converted, its working name is sanitised and the seeding
  returns a grid for it) and the name of the layer is valid as the identifier of a sensor
  grid, \<open>import_grids\<close> returns exactly one grid; it is identified by the name of the
  layer; the summary has one row for each enumerated object, in order, whose count is the
  number of sensors seeded for that object; and the number of sensors of the grid is the sum
  of the counts of the rows.  The tolerance is not restricted.
\<close>

theorem import_grids_one_grid:
  assumes "\<forall>obj \<in> set (grid_objs_of env rhino3dm_file layer child_layer).
             seeds env tolerance (default_controls gc) obj"
    and "valid_rad_string env (Name layer) = None"
  shows "\<exists>rs s'.
           import_grids env rhino3dm_file layer tolerance gc child_layer s
             = Inr (([\<lparr>identifier = Name layer,
                       sensors = concat (map (\<lambda>(nm, sens). sensors sens) rs)\<rparr>],
                     map (\<lambda>(nm, sens). (nm, length (sensors sens))) rs), s') \<and>
           list_all2
             (\<lambda>obj (nm, sens). \<exists>faces ident spacing_x spacing_y.
                to_face3d env obj tolerance = Inr faces \<and>
                clean_string env nm = Inr ident \<and>
                subscript (default_controls gc) 0 = Inr spacing_x \<and>
                subscript (default_controls gc) 1 = Inr spacing_y \<and>
                from_face3d env ident faces spacing_x spacing_x spacing_y = Inr sens)
             (grid_objs_of env rhino3dm_file layer child_layer) rs \<and>
           length (concat (map (\<lambda>(nm, sens). sensors sens) rs))
             = sum_list (map snd (map (\<lambda>(nm, sens). (nm, length (sensors sens))) rs))"
proof -
  from seed_objects_seeds [OF assms(1)] obtain rs s' where
    rs: "seed_objects env tolerance (default_controls gc)
           (grid_objs_of env rhino3dm_file layer child_layer) s = Inr (rs, s')"
    by blast
  have ret: "import_grids env rhino3dm_file layer tolerance gc child_layer s
             = Inr (([\<lparr>identifier = Name layer,
                       sensors = concat (map (\<lambda>(nm, sens). sensors sens) rs)\<rparr>],
                     map (\<lambda>(nm, sens). (nm, length (sensors sens))) rs), s')"
    by (simp add: import_grids_seed_objects rs assms(2))
  from ret seed_objects_services [OF rs] sum_list_counts [of rs, symmetric]
  show ?thesis by blast
qed

theorem import_grids_one_grid_witness:
  "seeds demo_services 0.01 (default_controls PyNone) (demo_object Brep ''a1'' (Some ''north wall'')) \<and>
   seeds demo_services 0.01 (default_controls PyNone) (demo_object Extrusion ''a3'' None) \<and>
   valid_rad_string demo_services (Name \<lparr>Name = ''grid''\<rparr>) = None \<and>
   import_grids demo_services demo_file \<lparr>Name = ''grid''\<rparr> 0.01 PyNone False 0
   = Inr (([\<lparr>identifier = ''grid'',
             sensors = [\<lparr>pos = (1, 1, 1), dir = (0, 0, 1)\<rparr>,
                        \<lparr>pos = (11, 1, 1), dir = (0, 0, 1)\<rparr>,
                        \<lparr>pos = (1, 11, 1), dir = (0, 0, 1)\<rparr>]\<rparr>],
           [(''north wall'', 2), (''Grid_0'', 1)]), 1) \<and>
   (\<exists>rs s'.
      import_grids demo_services demo_file \<lparr>Name = ''grid''\<rparr> 0.01 PyNone False 0
        = Inr (([\<lparr>identifier = Name \<lparr>Name = ''grid''\<rparr>,
                  sensors = concat (map (\<lambda>(nm, sens). sensors sens) rs)\<rparr>],
                map (\<lambda>(nm, sens). (nm, length (sensors sens))) rs), s') \<and>
      list_all2
        (\<lambda>obj (nm, sens). \<exists>faces ident spacing_x spacing_y.
           to_face3d demo_services obj 0.01 = Inr faces \<and>
           clean_string demo_services nm = Inr ident \<and>
           subscript (default_controls PyNone) 0 = Inr spacing_x \<and>
           subscript (default_controls PyNone) 1 = Inr spacing_y \<and>
           from_face3d demo_services ident faces spacing_x spacing_x spacing_y = Inr sens)
        (grid_objs_of demo_services demo_file \<lparr>Name = ''grid''\<rparr> False) rs \<and>
      length (concat (map (\<lambda>(nm, sens). sensors sens) rs))
        = sum_list (map snd (map (\<lambda>(nm, sens). (nm, length (sensors sens))) rs)))"
proof -
  have all: "\<forall>obj \<in> set (grid_objs_of demo_services demo_file \<lparr>Name = ''grid''\<rparr> False).
        seeds demo_services 0.01 (default_controls PyNone) obj"
    using demo_seeds_named demo_seeds_unnamed by (simp add: demo_grid_objs)
  show ?thesis
    by (rule conjI [OF demo_seeds_named conjI [OF demo_seeds_unnamed conjI [OF demo_valid_grid
          conjI [OF demo_run import_grids_one_grid [OF all demo_valid_grid, of 0]]]]])
qed

text \<open>
  The object on the layer \<open>my grid\<close> is a Brep and is converted, but the grid refuses
  the name of the layer; the objects of the layer \<open>grid\<close> are converted, but the seeding
  raises for the spacing 0.  Both calls raise.
\<close>

theorem import_grids_one_grid_counterexample:
  "grid_objs_of demo_services demo_file \<lparr>Name = ''my grid''\<rparr> False
     = [demo_object Brep ''a8'' (Some ''desk'')] \<and>
   Geometry (demo_object Brep ''a8'' (Some ''desk'')) \<noteq> Mesh \<and>
   to_face3d demo_services (demo_object Brep ''a8'' (Some ''desk'')) 0.01
     = Inr [(0, 0, 0), (10, 0, 0)] \<and>
   import_grids demo_services demo_file \<lparr>Name = ''my grid''\<rparr> 0.01 PyNone False 0
     = Inl (AssertionError ''Illegal character found in identifier'') \<and>
   import_grids demo_services demo_file \<lparr>Name = ''grid''\<rparr> 0.01 (PyTuple [0, 1, 0]) False 0
     = Inl (ZeroDivisionError ''float division by zero'')"
  by code_simp

text \<open>
  C2.  An enumerated object whose geometry is a mesh aborts the call: \<open>import_grids\<close>
  returns no grid and no summary, whatever else is on the layer.  When the loop comes to
  the object, that is when the objects enumerated before it were processed without an
  exception, the exception is the \<open>ValueError\<close> that rejects meshes, raised before the
  object is converted or named.
\<close>

theorem import_grids_mesh_rejected:
  assumes "grid_objs_of env rhino3dm_file layer child_layer = before @ obj # rest"
    and "Geometry obj = Mesh"
  shows "isl (import_grids env rhino3dm_file layer tolerance gc child_layer s) \<and>
         (\<forall>st. import_grids_loop env tolerance (default_controls gc) before (([], [], []), s) = Inr st
            \<longrightarrow> import_grids env rhino3dm_file layer tolerance gc child_layer s
                  = Inl (ValueError ''Mesh is not accepted.''))"
proof (cases "import_grids_loop env tolerance (default_controls gc) before (([], [], []), s)")
  case (Inl e)
  then have "import_grids_loop env tolerance (default_controls gc)
               (grid_objs_of env rhino3dm_file layer child_layer) (([], [], []), s) = Inl e"
    by (simp add: assms(1) import_grids_loop_append)
  from import_grids_raises [OF this] Inl show ?thesis by simp
next
  case (Inr st)
  then have "import_grids_loop env tolerance (default_controls gc)
               (grid_objs_of env rhino3dm_file layer child_layer) (([], [], []), s)
             = Inl (ValueError ''Mesh is not accepted.'')"
    by (simp add: assms import_grids_loop_append import_grids_body_mesh)
  from import_grids_raises [OF this] show ?thesis by simp
qed

theorem import_grids_mesh_rejected_witness:
  "grid_objs_of demo_services demo_file \<lparr>Name = ''grid''\<rparr> True
     = [demo_object Brep ''a1'' (Some ''north wall''), demo_object Extrusion ''a3'' None]
       @ demo_object Mesh ''a4'' (Some ''m'') # [] \<and>
   Geometry (demo_object Mesh ''a4'' (Some ''m'')) = Mesh \<and>
   isl (import_grids demo_services demo_file \<lparr>Name = ''grid''\<rparr> 0.01 (PyTuple [2, 3, 5]) True 0) \<and>
   import_grids demo_services demo_file \<lparr>Name = ''grid''\<rparr> 0.01 (PyTuple [2, 3, 5]) True 0
     = Inl (ValueError ''Mesh is not accepted.'')"
proof -
  have objs: "grid_objs_of demo_services demo_file \<lparr>Name = ''grid''\<rparr> True
     = [demo_object Brep ''a1'' (Some ''north wall''), demo_object Extrusion ''a3'' None]
       @ demo_object Mesh ''a4'' (Some ''m'') # []"
    by (simp add: demo_grid_objs_children)
  have mesh: "Geometry (demo_object Mesh ''a4'' (Some ''m'')) = Mesh"
    by (simp add: demo_object_def)
  show ?thesis
    using objs mesh demo_loop_grid
      import_grids_mesh_rejected [OF objs mesh, of "0.01" "PyTuple [2, 3, 5]" 0]
    by simp
qed

text \<open>
  C3, as amended.  An enumerated object that is not a mesh and whose conversion fails
  aborts the call: \<open>import_grids\<close> returns no grid and no summary.  When the loop comes to
  the object and the conversion has failed with an \<open>AssertionError\<close>, the exception is
  an \<open>AssertionError\<close> whose message holds the identifier of the object and the advice to
  try a smaller grid size; a conversion that fails with any other exception lets that
  exception through as it is.
\<close>

theorem import_grids_not_converted:
  assumes "grid_objs_of env rhino3dm_file layer child_layer = before @ obj # rest"
    and "Geometry obj \<noteq> Mesh"
    and "to_face3d env obj tolerance = Inl e"
  shows "isl (import_grids env rhino3dm_file layer tolerance gc child_layer s) \<and>
         (\<forall>st. import_grids_loop env tolerance (default_controls gc) before (([], [], []), s) = Inr st
            \<longrightarrow> import_grids env rhino3dm_file layer tolerance gc child_layer s
                  = Inl (case e of
                           AssertionError m \<Rightarrow>
                             AssertionError (conversion_message (ObjId (Attributes obj)))
                         | _ \<Rightarrow> e)) \<and>
         (\<exists>a b. conversion_message (ObjId (Attributes obj)) = a @ ObjId (Attributes obj) @ b) \<and>
         (\<exists>a b. conversion_message (ObjId (Attributes obj)) = a @ ''smaller grid size'' @ b)"
proof -
  have ident: "\<exists>a b. conversion_message (ObjId (Attributes obj)) = a @ ObjId (Attributes obj) @ b"
    unfolding conversion_message_def by blast
  have "conversion_message (ObjId (Attributes obj))
        = (''Please check object with ID: '' @ ObjId (Attributes obj) @ ''.''
           @ '' Either the object has faces too small for the grid size, or the''
           @ '' object is not supported for grids. You should try again with a '')
          @ ''smaller grid size'' @ '' in the config file.''"
    by (simp add: conversion_message_def)
  then have hint: "\<exists>a b. conversion_message (ObjId (Attributes obj)) = a @ ''smaller grid size'' @ b"
    by blast
  have raise: "isl (import_grids env rhino3dm_file layer tolerance gc child_layer s) \<and>
         (\<forall>st. import_grids_loop env tolerance (default_controls gc) before (([], [], []), s) = Inr st
            \<longrightarrow> import_grids env rhino3dm_file layer tolerance gc child_layer s
                  = Inl (case e of
                           AssertionError m \<Rightarrow>
                             AssertionError (conversion_message (ObjId (Attributes obj)))
                         | _ \<Rightarrow> e))"
  proof (cases "import_grids_loop env tolerance (default_controls gc) before (([], [], []), s)")
    case (Inl e')
    then have "import_grids_loop env tolerance (default_controls gc)
                 (grid_objs_of env rhino3dm_file layer child_layer) (([], [], []), s) = Inl e'"
      by (simp add: assms(1) import_grids_loop_append)
    from import_grids_raises [OF this] Inl show ?thesis by simp
  next
    case (Inr st)
    then have "import_grids_loop env tolerance (default_controls gc)
                 (grid_objs_of env rhino3dm_file layer child_layer) (([], [], []), s)
               = Inl (case e of
                        AssertionError m \<Rightarrow>
                          AssertionError (conversion_message (ObjId (Attributes obj)))
                      | _ \<Rightarrow> e)"
      by (simp add: assms(1) import_grids_loop_append
            import_grids_body_not_converted [OF assms(2,3)])
    from import_grids_raises [OF this] show ?thesis by simp
  qed
  from raise ident hint show ?thesis by blast
qed

theorem import_grids_not_converted_witness:
  "grid_objs_of demo_services demo_file \<lparr>Name = ''bad''\<rparr> False
     = [demo_object Brep ''a5'' None] @ demo_object OtherGeometry ''a6'' None
       # [demo_object Mesh ''a7'' None] \<and>
   Geometry (demo_object OtherGeometry ''a6'' None) \<noteq> Mesh \<and>
   to_face3d demo_services (demo_object OtherGeometry ''a6'' None) 0.01
     = Inl (AssertionError ''Face3D should have at least 3 vertices.'') \<and>
   import_grids demo_services demo_file \<lparr>Name = ''bad''\<rparr> 0.01 PyNone False 7
     = Inl (AssertionError (conversion_message ''a6'')) \<and>
   (\<exists>a b. conversion_message ''a6'' = a @ ''a6'' @ b) \<and>
   (\<exists>a b. conversion_message ''a6'' = a @ ''smaller grid size'' @ b)"
proof -
  have objs: "grid_objs_of demo_services demo_file \<lparr>Name = ''bad''\<rparr> False
     = [demo_object Brep ''a5'' None] @ demo_object OtherGeometry ''a6'' None
       # [demo_object Mesh ''a7'' None]"
    by (simp add: demo_bad_objs)
  have geo: "Geometry (demo_object OtherGeometry ''a6'' None) \<noteq> Mesh"
    by (simp add: demo_object_def)
  have conv: "to_face3d demo_services (demo_object OtherGeometry ''a6'' None) 0.01
     = Inl (AssertionError ''Face3D should have at least 3 vertices.'')"
    by (simp add: demo_services_def demo_object_def)
  have ident: "ObjId (Attributes (demo_object OtherGeometry ''a6'' None)) = ''a6''"
    by (simp add: demo_object_def)
  show ?thesis
    using objs geo conv demo_loop_bad
      import_grids_not_converted [OF objs geo conv, of PyNone 7]
    unfolding ident by simp
qed

text \<open>
  The curve on the layer \<open>odd\<close> is not a mesh and its conversion fails with a
  \<open>TypeError\<close>: that exception leaves the call, without the identifier of the object and
  without the advice.
\<close>

theorem import_grids_not_converted_counterexample:
  "grid_objs_of demo_services demo_file \<lparr>Name = ''odd''\<rparr> False = [demo_object Curve ''a9'' None] \<and>
   Geometry (demo_object Curve ''a9'' None) \<noteq> Mesh \<and>
   to_face3d demo_services (demo_object Curve ''a9'' None) 0.01
     = Inl (TypeError ''Curve is not supported.'') \<and>
   import_grids demo_services demo_file \<lparr>Name = ''odd''\<rparr> 0.01 PyNone False 0
     = Inl (TypeError ''Curve is not supported.'') \<and>
   import_grids demo_services demo_file \<lparr>Name = ''odd''\<rparr> 0.01 PyNone False 0
     \<noteq> Inl (AssertionError (conversion_message ''a9''))"
  by code_simp

text \<open>
  C6.  When \<open>import_grids\<close> returns, the sensors of the merged grid are the sensors
  seeded for the enumerated objects, object after object in the order of the enumeration,
  each object's sensors together and in the order the seeding gave them; so are its
  positions and its directions.
\<close>

theorem import_grids_order:
  assumes "import_grids env rhino3dm_file layer tolerance gc child_layer s = Inr ((grids, rows), s')"
  shows "\<exists>rs grid.
           seed_objects env tolerance (default_controls gc)
             (grid_objs_of env rhino3dm_file layer child_layer) s = Inr (rs, s') \<and>
           length rs = length (grid_objs_of env rhino3dm_file layer child_layer) \<and>
           grids = [grid] \<and>
           sensors grid = concat (map (\<lambda>(nm, sens). sensors sens) rs) \<and>
           map pos (sensors grid) = concat (map (\<lambda>(nm, sens). map pos (sensors sens)) rs) \<and>
           map dir (sensors grid) = concat (map (\<lambda>(nm, sens). map dir (sensors sens)) rs)"
proof -
  from import_grids_returns [OF assms] obtain rs where
    rs: "seed_objects env tolerance (default_controls gc)
           (grid_objs_of env rhino3dm_file layer child_layer) s = Inr (rs, s')" and
    g: "grids = [\<lparr>identifier = Name layer, sensors = concat (map (\<lambda>(nm, sens). sensors sens) rs)\<rparr>]"
    by blast
  from seed_objects_all2 [OF rs]
  have "length rs = length (grid_objs_of env rhino3dm_file layer child_layer)"
    by (simp add: list_all2_lengthD)
  with rs g show ?thesis
    by (simp add: concat_map_sensors)
qed

theorem import_grids_order_witness:
  "import_grids demo_services demo_file \<lparr>Name = ''grid''\<rparr> 0.01 (PyTuple [2, 3, 5]) False 0
   = Inr (([\<lparr>identifier = ''grid'',
             sensors = [\<lparr>pos = (2, 2, 3), dir = (0, 0, 1)\<rparr>,
                        \<lparr>pos = (12, 2, 3), dir = (0, 0, 1)\<rparr>,
                        \<lparr>pos = (2, 12, 3), dir = (0, 0, 1)\<rparr>]\<rparr>],
           [(''north wall'', 2), (''Grid_0'', 1)]), 1) \<and>
   (\<exists>rs grid.
      seed_objects demo_services 0.01 (default_controls (PyTuple [2, 3, 5]))
        (grid_objs_of demo_services demo_file \<lparr>Name = ''grid''\<rparr> False) 0 = Inr (rs, 1) \<and>
      length rs = length (grid_objs_of demo_services demo_file \<lparr>Name = ''grid''\<rparr> False) \<and>
      [\<lparr>identifier = ''grid'',
        sensors = [\<lparr>pos = (2, 2, 3), dir = (0, 0, 1)\<rparr>,
                   \<lparr>pos = (12, 2, 3), dir = (0, 0, 1)\<rparr>,
                   \<lparr>pos = (2, 12, 3), dir = (0, 0, 1)\<rparr>]\<rparr>] = [grid] \<and>
      sensors grid = concat (map (\<lambda>(nm, sens). sensors sens) rs) \<and>
      map pos (sensors grid) = concat (map (\<lambda>(nm, sens). map pos (sensors sens)) rs) \<and>
      map dir (sensors grid) = concat (map (\<lambda>(nm, sens). map dir (sensors sens)) rs))"
  using demo_run_controls import_grids_order [OF demo_run_controls]
  by (rule conjI)

text \<open>
  C10.  Every falsy \<open>grid_controls\<close> (\<open>None\<close>, the empty tuple, the empty list, zero) is
  replaced by \<open>(1.0, 1.0, 0.0)\<close>, and the call returns what it returns for
  \<open>grid_controls = (1.0, 1.0, 0.0)\<close>, on any file, layer, tolerance and
  \<open>child_layer\<close>.
\<close>

theorem import_grids_falsy_controls:
  assumes "\<not> truthy gc"
  shows "default_controls gc = PyTuple [1, 1, 0] \<and>
         import_grids env rhino3dm_file layer tolerance gc child_layer s
           = import_grids env rhino3dm_file layer tolerance (PyTuple [1, 1, 0]) child_layer s"
  using assms by (simp add: import_grids_def default_controls_def)

theorem import_grids_falsy_controls_witness:
  "\<not> truthy (PyList []) \<and>
   default_controls (PyList []) = PyTuple [1, 1, 0] \<and>
   import_grids demo_services demo_file \<lparr>Name = ''grid''\<rparr> 0.01 (PyList []) False 0
     = import_grids demo_services demo_file \<lparr>Name = ''grid''\<rparr> 0.01 (PyTuple [1, 1, 0]) False 0"
proof -
  have f: "\<not> truthy (PyList [])" by simp
  show ?thesis
    using f import_grids_falsy_controls [OF f, of demo_services demo_file "\<lparr>Name = ''grid''\<rparr>" "0.01" False 0]
    by simp
qed

text \<open>
  C5.  When \<open>import_grids\<close> returns, the grid and the summary are made of one seeded grid
  for each enumerated object, and that grid is what \<open>SensorGrid.from_face3d\<close> returns for
  the sanitised working name, the faces of the object and, as its three numeric arguments in
  this order, \<open>grid_controls[0]\<close>, \<open>grid_controls[0]\<close> again and
  \<open>grid_controls[1]\<close>: the x-spacing twice, then the y-spacing.  The third component of
  the grid controls is not passed.
\<close>

theorem import_grids_seeding_arguments:
  assumes "import_grids env rhino3dm_file layer tolerance gc child_layer s = Inr ((grids, rows), s')"
  shows "\<exists>rs.
           grids = [\<lparr>identifier = Name layer,
                     sensors = concat (map (\<lambda>(nm, sens). sensors sens) rs)\<rparr>] \<and>
           rows = map (\<lambda>(nm, sens). (nm, length (sensors sens))) rs \<and>
           list_all2
             (\<lambda>obj (nm, sens). \<exists>faces ident spacing_x spacing_y.
                to_face3d env obj tolerance = Inr faces \<and>
                clean_string env nm = Inr ident \<and>
                subscript (default_controls gc) 0 = Inr spacing_x \<and>
                subscript (default_controls gc) 1 = Inr spacing_y \<and>
                from_face3d env ident faces spacing_x spacing_x spacing_y = Inr sens)
             (grid_objs_of env rhino3dm_file layer child_layer) rs"
proof -
  from import_grids_returns [OF assms] obtain rs where
    rs: "seed_objects env tolerance (default_controls gc)
           (grid_objs_of env rhino3dm_file layer child_layer) s = Inr (rs, s')" and
    g: "grids = [\<lparr>identifier = Name layer, sensors = concat (map (\<lambda>(nm, sens). sensors sens) rs)\<rparr>]" and
    r: "rows = map (\<lambda>(nm, sens). (nm, length (sensors sens))) rs"
    by blast
  from g r seed_objects_services [OF rs] show ?thesis by blast
qed

theorem import_grids_seeding_arguments_witness:
  "import_grids demo_services demo_file \<lparr>Name = ''grid''\<rparr> 0.01 (PyTuple [2, 3, 5]) False 0
   = Inr (([\<lparr>identifier = ''grid'',
             sensors = [\<lparr>pos = (2, 2, 3), dir = (0, 0, 1)\<rparr>,
                        \<lparr>pos = (12, 2, 3), dir = (0, 0, 1)\<rparr>,
                        \<lparr>pos = (2, 12, 3), dir = (0, 0, 1)\<rparr>]\<rparr>],
           [(''north wall'', 2), (''Grid_0'', 1)]), 1) \<and>
   (\<exists>rs.
      [\<lparr>identifier = ''grid'',
        sensors = [\<lparr>pos = (2, 2, 3), dir = (0, 0, 1)\<rparr>,
                   \<lparr>pos = (12, 2, 3), dir = (0, 0, 1)\<rparr>,
                   \<lparr>pos = (2, 12, 3), dir = (0, 0, 1)\<rparr>]\<rparr>]
        = [\<lparr>identifier = Name \<lparr>Name = ''grid''\<rparr>,
             sensors = concat (map (\<lambda>(nm, sens). sensors sens) rs)\<rparr>] \<and>
      [(''north wall'', 2), (''Grid_0'', 1)] = map (\<lambda>(nm, sens). (nm, length (sensors sens))) rs \<and>
      list_all2
        (\<lambda>obj (nm, sens). \<exists>faces ident spacing_x spacing_y.
           to_face3d demo_services obj 0.01 = Inr faces \<and>
           clean_string demo_services nm = Inr ident \<and>
           subscript (default_controls (PyTuple [2, 3, 5])) 0 = Inr spacing_x \<and>
           subscript (default_controls (PyTuple [2, 3, 5])) 1 = Inr spacing_y \<and>
           from_face3d demo_services ident faces spacing_x spacing_x spacing_y = Inr sens)
        (grid_objs_of demo_services demo_file \<lparr>Name = ''grid''\<rparr> False) rs)"
  using demo_run_controls import_grids_seeding_arguments [OF demo_run_controls]
  by (rule conjI)

text \<open>
  C4, as amended.  For an object that the loop processes without an exception, the working
  name is the stored name when that is not empty, and otherwise the identifier that
  \<open>clean_and_id_string('Grid')\<close> generates; the sanitised form of this name is the
  identifier given to the seeding, and only that; the row appended to the summary is the
  working name as it is, not sanitised, with the number of sensors seeded.
\<close>

theorem import_grids_summary_row:
  assumes "import_grids_body env tolerance gc ((grid_pos, grid_dir, rows), s) obj
             = Inr ((grid_pos', grid_dir', rows'), s')"
  shows "\<exists>obj_name sens faces ident x y.
           (\<forall>n. ObjName (Attributes obj) = Some n \<and> n \<noteq> [] \<longrightarrow> obj_name = n \<and> s' = s) \<and>
           (ObjName (Attributes obj) = None \<or> ObjName (Attributes obj) = Some []
              \<longrightarrow> (obj_name, s') = clean_and_id_string env ''Grid'' s) \<and>
           to_face3d env obj tolerance = Inr faces \<and>
           clean_string env obj_name = Inr ident \<and>
           from_face3d env ident faces x x y = Inr sens \<and>
           rows' = rows @ [(obj_name, length (sensors sens))] \<and>
           grid_pos' = grid_pos @ map pos (sensors sens) \<and>
           grid_dir' = grid_dir @ map dir (sensors sens)"
proof -
  from assms obtain sens nm where
    so: "seed_object env tolerance gc obj s = Inr (sens, nm, s')" and
    acc: "rows' = rows @ [(nm, length (sensors sens))]"
         "grid_pos' = grid_pos @ map pos (sensors sens)"
         "grid_dir' = grid_dir @ map dir (sensors sens)"
    by (auto simp: import_grids_body_def split: sum.splits prod.splits)
  from seed_object_Inr [OF so] obtain faces ident x y where
    nm: "obj_name_of env obj s = (nm, s')" and
    faces: "to_face3d env obj tolerance = Inr faces" and
    clean: "clean_string env nm = Inr ident" and
    sens: "from_face3d env ident faces x x y = Inr sens"
    by blast
  from nm have
    "\<forall>n. ObjName (Attributes obj) = Some n \<and> n \<noteq> [] \<longrightarrow> nm = n \<and> s' = s"
    "ObjName (Attributes obj) = None \<or> ObjName (Attributes obj) = Some []
       \<longrightarrow> (nm, s') = clean_and_id_string env ''Grid'' s"
    by (auto simp: obj_name_of_def split: option.splits if_splits)
  with faces clean sens acc show ?thesis by blast
qed

theorem import_grids_summary_row_witness:
  "import_grids_body demo_services 0.01 (PyTuple [1, 1, 0]) (([], [], []), 0)
     (demo_object Brep ''a1'' (Some ''north wall''))
   = Inr (([(1, 1, 1), (11, 1, 1)], [(0, 0, 1), (0, 0, 1)], [(''north wall'', 2)]), 0) \<and>
   (\<exists>obj_name sens faces ident x y.
      (\<forall>n. ObjName (Attributes (demo_object Brep ''a1'' (Some ''north wall''))) = Some n \<and> n \<noteq> []
         \<longrightarrow> obj_name = n \<and> (0::nat) = 0) \<and>
      (ObjName (Attributes (demo_object Brep ''a1'' (Some ''north wall''))) = None \<or>
       ObjName (Attributes (demo_object Brep ''a1'' (Some ''north wall''))) = Some []
         \<longrightarrow> (obj_name, 0) = clean_and_id_string demo_services ''Grid'' 0) \<and>
      to_face3d demo_services (demo_object Brep ''a1'' (Some ''north wall'')) 0.01 = Inr faces \<and>
      clean_string demo_services obj_name = Inr ident \<and>
      from_face3d demo_services ident faces x x y = Inr sens \<and>
      [(''north wall'', 2)] = [] @ [(obj_name, length (sensors sens))] \<and>
      [(1, 1, 1), (11, 1, 1)] = [] @ map pos (sensors sens) \<and>
      [(0, 0, 1), (0, 0, 1)] = [] @ map dir (sensors sens))"
  using demo_body import_grids_summary_row [OF demo_body]
  by (rule conjI)

text \<open>
  The row of the object named \<open>north wall\<close> keeps this name, while its sanitised form is
  \<open>north_wall\<close>: the summary does not hold the sanitised name.
\<close>

theorem import_grids_summary_row_counterexample:
  "import_grids demo_services demo_file \<lparr>Name = ''grid''\<rparr> 0.01 PyNone False 0
   = Inr (([\<lparr>identifier = ''grid'',
             sensors = [\<lparr>pos = (1, 1, 1), dir = (0, 0, 1)\<rparr>,
                        \<lparr>pos = (11, 1, 1), dir = (0, 0, 1)\<rparr>,
                        \<lparr>pos = (1, 11, 1), dir = (0, 0, 1)\<rparr>]\<rparr>],
           [(''north wall'', 2), (''Grid_0'', 1)]), 1) \<and>
   clean_string demo_services ''north wall'' = Inr ''north_wall'' \<and>
   (''north wall'', 2 :: nat) \<noteq> (''north_wall'', 2)"
proof -
  have c: "clean_string demo_services ''north wall'' = Inr ''north_wall''"
    by code_simp
  show ?thesis
    using demo_run c by simp
qed

section \<open>Properties of \<open>DataWriter.write_csv\<close>\<close>




lemma str_nat_digits: "set (str_nat n) \<subseteq> set ''0123456789''"
proof (induction n rule: str_nat.induct)
  case (1 n)
  show ?case
  proof (cases "n < 10")
    case True
    then have "''0123456789'' ! n \<in> set ''0123456789''" by (intro nth_mem) simp
    with True show ?thesis by (subst str_nat.simps) simp
  next
    case False
    have "n mod 10 < 10" by simp
    then have "''0123456789'' ! (n mod 10) \<in> set ''0123456789''" by (intro nth_mem) simp
    with False "1.IH" show ?thesis by (subst str_nat.simps) simp
  qed
qed

lemma field_text_PyInt: "CR \<notin> set (field_text (PyInt i)) \<and> LF \<notin> set (field_text (PyInt i))"
  using str_nat_digits [of "nat i"] str_nat_digits [of "nat (- i)"]
  by (auto simp: str_int_def CR_def LF_def)









text \<open>
  C8, as amended.  A call with a non-empty target folder that does not exist raises the
  \<open>ValueError\<close> and leaves the file system as it was: no file is created.
\<close>

theorem write_csv_missing_folder:
  assumes "target_folder self = Some folder" and "folder \<noteq> []" and "\<not> path_exists fs folder"
  shows "write_csv os_path_join encodable self fs
           = (Some (ValueError ''Target foldder is not a valid path.''), fs)"
  using assms by (simp add: write_csv_def file_name_of_def)

theorem write_csv_missing_folder_witness:
  "target_folder (demo_writer [[PyStr ''A'', PyInt 3]] (Some ''missing'')) = Some ''missing'' \<and>
   ''missing'' \<noteq> [] \<and>
   \<not> path_exists demo_fs ''missing'' \<and>
   write_csv posix_join ascii (demo_writer [[PyStr ''A'', PyInt 3]] (Some ''missing'')) demo_fs
     = (Some (ValueError ''Target foldder is not a valid path.''), demo_fs)"
proof -
  have t: "target_folder (demo_writer [[PyStr ''A'', PyInt 3]] (Some ''missing'')) = Some ''missing''"
    by (simp add: demo_writer_def)
  have n: "''missing'' \<noteq> []" by simp
  have e: "\<not> path_exists demo_fs ''missing''" by (simp add: demo_fs_def)
  show ?thesis
    using t n e write_csv_missing_folder [OF t n e, of posix_join ascii] by simp
qed

text \<open>
  The empty string does not exist as a path, but as a target folder it is falsy: the call
  returns normally and creates \<open>report.csv\<close> in the working directory.
\<close>

theorem write_csv_missing_folder_counterexample:
  "target_folder (demo_writer [[PyStr ''A'', PyInt 3]] (Some '''')) = Some '''' \<and>
   \<not> path_exists demo_fs '''' \<and>
   files demo_fs ''report.csv'' = None \<and>
   fst (write_csv posix_join ascii (demo_writer [[PyStr ''A'', PyInt 3]] (Some '''')) demo_fs) = None \<and>
   files (snd (write_csv posix_join ascii (demo_writer [[PyStr ''A'', PyInt 3]] (Some '''')) demo_fs))
     ''report.csv'' = Some (''A,3'' @ [CR, LF])"
  by code_simp

end
